theory Spec2Isabelle
  imports Main
begin

section \<open>Python values, exceptions and the effects of a handler\<close>

text \<open>
  The module \<^verbatim>\<open>pybot/endpoints/slack/commands.py\<close> holds the slash-command handlers
  of the bot. Every handler receives the parsed command and the application object,
  talks to the chat platform through \<^verbatim>\<open>slack.query(method, data)\<close> and to auxiliary
  services through \<^verbatim>\<open>app.http_session.get\<close>, and returns nothing.

  Dynamically typed values (payloads, JSON bodies, API responses) are values of
  \<open>pyval\<close>; a \<^verbatim>\<open>dict\<close> is an association list in insertion order. A \<open>char\<close> stands
  for a code point below 256; texts with larger code points are outside the model.
  Calls to the logger have no effect on the chat platform and are left out.
\<close>

datatype pyval =
    VNone
  | VBool bool
  | VInt int
  | VStr string
  | VList "pyval list"
  | VDict "(string \<times> pyval) list"

type_synonym pydict = "(string \<times> pyval) list"

datatype error =
    ValueError
  | KeyError string
  | TypeError
  | SlackAPIError
  | ClientResponseError int
  | OtherError string

text \<open>The members of \<^verbatim>\<open>slack.methods\<close> that the module names, and any other one.\<close>

datatype api_method =
    CHAT_POST_EPHEMERAL
  | CHAT_POST_MESSAGE
  | USERS_INFO
  | DIALOG_OPEN
  | OTHER_METHOD string

text \<open>
  What a handler changes: the calls it has issued to the chat API, in order, and the
  state of the \<^verbatim>\<open>random\<close> module, given as the stream of raw numbers it will still
  deliver.
\<close>

record world =
  calls :: "(api_method \<times> pydict) list"
  rng :: "nat \<Rightarrow> nat"

type_synonym 'a act = "world \<Rightarrow> (error + 'a) \<times> world"

definition act_return :: "'a \<Rightarrow> 'a act" where
  "act_return x w = (Inr x, w)"

definition act_raise :: "error \<Rightarrow> 'a act" where
  "act_raise e w = (Inl e, w)"

definition act_lift :: "error + 'a \<Rightarrow> 'a act" where
  "act_lift r w = (r, w)"

definition act_bind :: "'a act \<Rightarrow> ('a \<Rightarrow> 'b act) \<Rightarrow> 'b act" where
  "act_bind m f w = (case m w of (Inl e, w') \<Rightarrow> (Inl e, w') | (Inr x, w') \<Rightarrow> f x w')"

text \<open>The command payload: the keys the handlers read.\<close>

record slash_command =
  cmd_channel_id :: string
  cmd_user_id :: string
  cmd_user_name :: string
  cmd_text :: string
  cmd_trigger_id :: string
  cmd_command :: string

text \<open>
  The response of \<^verbatim>\<open>app.http_session.get\<close>: its status and what awaiting
  \<^verbatim>\<open>r.json()\<close> gives.
\<close>

record http_response =
  status :: int
  json :: "error + pyval"

text \<open>
  The application object. \<open>slack_api\<close> is the chat platform: its answer to a call may
  depend on the calls issued before it, and it may be the exception
  \<^verbatim>\<open>SlackAPIError\<close>. \<open>http_session_get\<close> takes the keyword arguments of the request, the
  positional URL under the key \<^verbatim>\<open>url\<close>.
\<close>

record app =
  slack_api :: "(api_method \<times> pydict) list \<Rightarrow> api_method \<Rightarrow> pydict \<Rightarrow> error + pyval"
  http_session_get :: "pydict \<Rightarrow> error + http_response"

definition query :: "app \<Rightarrow> api_method \<Rightarrow> pydict \<Rightarrow> pyval act" where
  "query a m d w = (slack_api a (calls w) m d, w\<lparr>calls := calls w @ [(m, d)]\<rparr>)"

text \<open>\<^verbatim>\<open>r.raise_for_status()\<close> of the HTTP client: an exception from status 400 on.\<close>

definition raise_for_status :: "http_response \<Rightarrow> error + unit" where
  "raise_for_status r = (if 400 \<le> status r then Inl (ClientResponseError (status r)) else Inr ())"

text \<open>\<^verbatim>\<open>v[k]\<close> with a string key, and \<^verbatim>\<open>len(v)\<close>.\<close>

definition py_getitem :: "pyval \<Rightarrow> string \<Rightarrow> error + pyval" where
  "py_getitem v k =
     (case v of
        VDict kvs \<Rightarrow> (case map_of kvs k of None \<Rightarrow> Inl (KeyError k) | Some x \<Rightarrow> Inr x)
      | _ \<Rightarrow> Inl TypeError)"

definition py_len :: "pyval \<Rightarrow> error + nat" where
  "py_len v =
     (case v of
        VList xs \<Rightarrow> Inr (length xs)
      | VDict kvs \<Rightarrow> Inr (length kvs)
      | VStr s \<Rightarrow> Inr (length s)
      | _ \<Rightarrow> Inl TypeError)"

section \<open>Strings: \<^verbatim>\<open>lower\<close>, \<^verbatim>\<open>split\<close>, \<^verbatim>\<open>int\<close> and \<^verbatim>\<open>str\<close>\<close>

definition lower_char :: "char \<Rightarrow> char" where
  "lower_char c =
     (let n = (of_char c :: nat)
      in if (65 \<le> n \<and> n \<le> 90) \<or> (192 \<le> n \<and> n \<le> 222 \<and> n \<noteq> 215)
         then char_of (n + 32) else c)"

definition lower :: "string \<Rightarrow> string" where
  "lower s = map lower_char s"

text \<open>\<^verbatim>\<open>s.split(sep)\<close> for a separator of one character: one more part than separators.\<close>

fun split :: "char \<Rightarrow> string \<Rightarrow> string list" where
  "split sep [] = [[]]"
| "split sep (c # cs) =
     (if c = sep then [] # split sep cs
      else (c # hd (split sep cs)) # tl (split sep cs))"

definition py_isspace :: "char \<Rightarrow> bool" where
  "py_isspace c =
     (let n = (of_char c :: nat)
      in (9 \<le> n \<and> n \<le> 13) \<or> n = 32 \<or> n = 133 \<or> n = 160)"

definition py_isdigit :: "char \<Rightarrow> bool" where
  "py_isdigit c = (let n = (of_char c :: nat) in 48 \<le> n \<and> n \<le> 57)"

definition digit_val :: "char \<Rightarrow> int" where
  "digit_val c = int (of_char c) - 48"

definition strip :: "string \<Rightarrow> string" where
  "strip s = rev (dropWhile py_isspace (rev (dropWhile py_isspace s)))"

text \<open>
  The digits of a decimal literal: single underscores are allowed between digits only.
  The flag says that the character before was a digit.
\<close>

fun parse_digits :: "bool \<Rightarrow> int \<Rightarrow> string \<Rightarrow> int option" where
  "parse_digits prev acc [] = (if prev then Some acc else None)"
| "parse_digits prev acc (c # cs) =
     (if py_isdigit c then parse_digits True (10 * acc + digit_val c) cs
      else if c = CHR ''_'' \<and> prev then parse_digits False acc cs
      else None)"

text \<open>
  \<^verbatim>\<open>int(s)\<close> on a string: white space around, an optional sign, decimal digits;
  anything else is \<^verbatim>\<open>ValueError\<close>. The white space that \<^verbatim>\<open>int\<close> strips is the
  characters 9 to 13 and 32, and 133 and 160 beyond ASCII. (The limit that later
  interpreters put on the number of digits is not modelled.)
\<close>

definition py_int :: "string \<Rightarrow> error + int" where
  "py_int s =
     (case strip s of
        [] \<Rightarrow> Inl ValueError
      | c # cs \<Rightarrow>
          if c = CHR ''-'' then
            (case parse_digits False 0 cs of None \<Rightarrow> Inl ValueError | Some n \<Rightarrow> Inr (- n))
          else if c = CHR ''+'' then
            (case parse_digits False 0 cs of None \<Rightarrow> Inl ValueError | Some n \<Rightarrow> Inr n)
          else
            (case parse_digits False 0 (c # cs) of None \<Rightarrow> Inl ValueError | Some n \<Rightarrow> Inr n))"

function str_nat :: "nat \<Rightarrow> string" where
  "str_nat n =
     (if n < 10 then [char_of (48 + n)]
      else str_nat (n div 10) @ [char_of (48 + n mod 10)])"
  by pat_completeness auto
termination
  by (relation "measure id") auto

declare str_nat.simps [simp del]

definition py_str_int :: "int \<Rightarrow> string" where
  "py_str_int i = (if i < 0 then CHR ''-'' # str_nat (nat (- i)) else str_nat (nat i))"

fun join :: "string \<Rightarrow> string list \<Rightarrow> string" where
  "join sep [] = []"
| "join sep [x] = x"
| "join sep (x # y # ys) = x @ sep @ join sep (y # ys)"

text \<open>\<^verbatim>\<open>str\<close> of a list of integers, as an f-string prints it.\<close>

definition py_str_int_list :: "int list \<Rightarrow> string" where
  "py_str_int_list ds = ''['' @ join '', '' (map py_str_int ds) @ '']''"

section \<open>The error-wrapping decorator\<close>

type_synonym handler = "slash_command \<Rightarrow> app \<Rightarrow> unit act"

text \<open>
  \<^verbatim>\<open>catch_slack_error(func)\<close>: the handler runs; on \<^verbatim>\<open>SlackAPIError\<close> one ephemeral
  message is posted. The \<^verbatim>\<open>except\<close> block is not itself guarded, and any other
  exception passes.
\<close>

definition catch_slack_error :: "handler \<Rightarrow> handler" where
  "catch_slack_error func command app w =
     (case func command app w of
        (Inl SlackAPIError, w') \<Rightarrow>
          (let channel_id = cmd_channel_id command;
               slash_command = cmd_command command;
               slack_id = cmd_user_id command
           in act_bind
                (query app CHAT_POST_EPHEMERAL
                   [(''user'', VStr slack_id),
                    (''channel'', VStr slack_id),
                    (''as_user'', VBool True),
                    (''text'', VStr (''Could not post result of `'' @ slash_command @ ''` ''
                                     @ ''to channel <#'' @ channel_id @ ''>''))])
                (\<lambda>_. act_return ()) w')
      | (Inl e, w') \<Rightarrow> (Inl e, w')
      | (Inr _, w') \<Rightarrow> (Inr (), w'))"

section \<open>The dice roller\<close>

text \<open>
  \<^verbatim>\<open>random.randint(a, b)\<close>: an integer of the closed interval from \<open>a\<close> to \<open>b\<close>, chosen
  by the next raw number of the generator; \<^verbatim>\<open>ValueError\<close> on an empty interval.
\<close>

definition randint :: "int \<Rightarrow> int \<Rightarrow> int act" where
  "randint a b w =
     (if b < a then (Inl ValueError, w)
      else (Inr (a + int (rng w 0 mod nat (b - a + 1))), w\<lparr>rng := (\<lambda>i. rng w (Suc i))\<rparr>))"

text \<open>The \<^verbatim>\<open>try\<close> block of \<^verbatim>\<open>slash_roll\<close>: the number of dice and their sides.\<close>

definition parse_roll :: "string \<Rightarrow> error + (int \<times> int)" where
  "parse_roll txt =
     (case split (CHR ''d'') (lower txt) of
        [a, b] \<Rightarrow>
          (case py_int a of
             Inl e \<Rightarrow> Inl e
           | Inr numdice \<Rightarrow>
               (case py_int b of
                  Inl e \<Rightarrow> Inl e
                | Inr typedice \<Rightarrow>
                    if numdice \<le> 0 \<or> numdice > 10 then Inl ValueError
                    else if typedice \<le> 0 \<or> typedice > 20 then Inl ValueError
                    else Inr (numdice, typedice)))
      | _ \<Rightarrow> Inl ValueError)"

text \<open>The loop \<^verbatim>\<open>for _ in range(0, numdice)\<close>, with the list built so far.\<close>

fun roll_loop :: "nat \<Rightarrow> int \<Rightarrow> int list \<Rightarrow> int list act" where
  "roll_loop 0 typedice dice = act_return dice"
| "roll_loop (Suc k) typedice dice =
     act_bind (randint 1 (typedice + 1)) (\<lambda>d. roll_loop k typedice (dice @ [d]))"

text \<open>
  The handler as it is written is \<open>slash_roll_func\<close>; the name \<^verbatim>\<open>slash_roll\<close> of the
  module is that function under its decorator, and it is what \<^verbatim>\<open>create_endpoints\<close>
  registers. All that the \<^verbatim>\<open>try\<close> block can raise is \<^verbatim>\<open>ValueError\<close>, which the
  \<^verbatim>\<open>except\<close> clause answers with the help message.
\<close>

definition roll_help :: string where
  "roll_help = ''Sorry, I didn't understand your input. ''
     @ ''Should be XDYY where X is the number of dice, and YY is the number of sides''"

definition slash_roll_func :: handler where
  "slash_roll_func command app =
     (let slack_id = cmd_user_id command;
          channel_id = cmd_channel_id command;
          txt = cmd_text command
      in case parse_roll txt of
           Inl ValueError \<Rightarrow>
             act_bind
               (query app CHAT_POST_EPHEMERAL
                  [(''user'', VStr slack_id), (''channel'', VStr channel_id),
                   (''text'', VStr roll_help)])
               (\<lambda>_. act_return ())
         | Inl e \<Rightarrow> act_raise e
         | Inr (numdice, typedice) \<Rightarrow>
             act_bind (roll_loop (nat numdice) typedice []) (\<lambda>dice.
             act_bind
               (query app CHAT_POST_MESSAGE
                  [(''channel'', VStr channel_id),
                   (''text'', VStr (''<@'' @ slack_id @ ''> Rolled '' @ py_str_int numdice
                                    @ '' D'' @ py_str_int typedice @ '': ''
                                    @ py_str_int_list dice))])
               (\<lambda>_. act_return ())))"

definition slash_roll :: handler where
  "slash_roll = catch_slack_error slash_roll_func"

section \<open>The other handlers\<close>

text \<open>
  The collaborators that the module imports from elsewhere in the repository are
  parameters: the configuration constants, the message templates, the two message
  routines and the class \<^verbatim>\<open>LunchCommand\<close> (its objects are of type \<open>'l\<close>). Each of
  them may raise; \<^verbatim>\<open>get_slash_here_messages\<close> is handed the chat client and
  \<^verbatim>\<open>select_random_lunch\<close> draws random numbers, so both act on the world.
\<close>

record 'l ext =
  PYBACK_HOST :: string
  PYBACK_PORT :: string
  PYBACK_TOKEN :: string
  MODERATOR_CHANNEL :: string
  ticket_dialog :: "pyval \<Rightarrow> string \<Rightarrow> error + pyval"
  not_claimed_attachment :: "error + pyval"
  get_slash_here_messages :: "string \<Rightarrow> string \<Rightarrow> app \<Rightarrow> string \<Rightarrow> (pyval \<times> pyval) act"
  get_slash_repeat_messages :: "string \<Rightarrow> string \<Rightarrow> string \<Rightarrow> error + (api_method \<times> pydict)"
  LunchCommand :: "string \<Rightarrow> string \<Rightarrow> string \<Rightarrow> string \<Rightarrow> error + 'l"
  get_yelp_request :: "'l \<Rightarrow> error + pydict"
  select_random_lunch :: "'l \<Rightarrow> pyval \<Rightarrow> pydict act"

definition slash_ticket_func :: "'l ext \<Rightarrow> handler" where
  "slash_ticket_func ext command app =
     (let trigger_id = cmd_trigger_id command;
          user_id = cmd_user_id command
      in act_bind (query app USERS_INFO [(''user'', VStr user_id)]) (\<lambda>user_info.
         act_bind (act_lift (py_getitem user_info ''user'')) (\<lambda>u.
         act_bind (act_lift (py_getitem u ''profile'')) (\<lambda>profile.
         act_bind (act_lift (py_getitem profile ''email'')) (\<lambda>clicker_email.
         act_bind (act_lift (ticket_dialog ext clicker_email (cmd_text command))) (\<lambda>dialog.
         act_bind
           (query app DIALOG_OPEN [(''trigger_id'', VStr trigger_id), (''dialog'', dialog)])
           (\<lambda>_. act_return ())))))))"

definition slash_report_func :: "'l ext \<Rightarrow> handler" where
  "slash_report_func ext command app =
     (let slack_id = cmd_user_id command;
          txt = cmd_text command;
          message = ''<@'' @ slack_id @ ''> sent report: '' @ txt
      in act_bind (act_lift (not_claimed_attachment ext)) (\<lambda>attachment.
         act_bind
           (query app CHAT_POST_MESSAGE
              [(''text'', VStr message),
               (''channel'', VStr (MODERATOR_CHANNEL ext)),
               (''attachments'', VList [attachment])])
           (\<lambda>_. act_return ())))"

text \<open>The request of \<^verbatim>\<open>slash_here\<close> to the moderation service.\<close>

definition here_request :: "'l ext \<Rightarrow> slash_command \<Rightarrow> pydict" where
  "here_request ext command =
     [(''url'', VStr (''http://'' @ PYBACK_HOST ext @ '':'' @ PYBACK_PORT ext @ ''/api/mods/'')),
      (''params'', VDict [(''slack_id'', VStr (cmd_user_id command)),
                          (''channel_id'', VStr (cmd_channel_id command))]),
      (''headers'', VDict [(''Authorization'', VStr (''Token '' @ PYBACK_TOKEN ext))])]"

definition slash_here_func :: "'l ext \<Rightarrow> handler" where
  "slash_here_func ext command app =
     (let channel_id = cmd_channel_id command;
          slack_id = cmd_user_id command
      in act_bind (act_lift (http_session_get app (here_request ext command))) (\<lambda>r.
         if status r \<ge> 400 then act_return ()
         else
           act_bind (act_lift (json r)) (\<lambda>response.
           act_bind (act_lift (py_len response)) (\<lambda>n.
           if n = 0 then act_return ()
           else
             act_bind (get_slash_here_messages ext slack_id channel_id app (cmd_text command))
               (\<lambda>(message, member_list).
             act_bind
               (query app CHAT_POST_MESSAGE [(''channel'', VStr channel_id), (''text'', message)])
               (\<lambda>response.
             act_bind (act_lift (py_getitem response ''ts'')) (\<lambda>timestamp.
             act_bind
               (query app CHAT_POST_MESSAGE
                  [(''channel'', VStr channel_id), (''text'', member_list),
                   (''thread_ts'', timestamp)])
               (\<lambda>_. act_return ()))))))))"

definition slash_lunch_func :: "'l ext \<Rightarrow> handler" where
  "slash_lunch_func ext command app =
     act_bind
       (act_lift (LunchCommand ext (cmd_channel_id command) (cmd_user_id command)
                    (cmd_text command) (cmd_user_name command))) (\<lambda>lunch.
     act_bind (act_lift (get_yelp_request ext lunch)) (\<lambda>request.
     act_bind (act_lift (http_session_get app request)) (\<lambda>r.
     act_bind (act_lift (raise_for_status r)) (\<lambda>_.
     act_bind (act_lift (json r)) (\<lambda>body.
     act_bind (select_random_lunch ext lunch body) (\<lambda>message_params.
     act_bind (query app CHAT_POST_EPHEMERAL message_params) (\<lambda>_. act_return ())))))))"

definition slash_repeat_func :: "'l ext \<Rightarrow> handler" where
  "slash_repeat_func ext command app =
     (let channel_id = cmd_channel_id command;
          slack_id = cmd_user_id command
      in act_bind (act_lift (get_slash_repeat_messages ext slack_id channel_id (cmd_text command)))
           (\<lambda>(method_type, message).
         act_bind (query app method_type message) (\<lambda>_. act_return ())))"

text \<open>The names of the module: each function above under its decorator.\<close>

definition slash_ticket :: "'l ext \<Rightarrow> handler" where
  "slash_ticket ext = catch_slack_error (slash_ticket_func ext)"

definition slash_report :: "'l ext \<Rightarrow> handler" where
  "slash_report ext = catch_slack_error (slash_report_func ext)"

definition slash_here :: "'l ext \<Rightarrow> handler" where
  "slash_here ext = catch_slack_error (slash_here_func ext)"

definition slash_lunch :: "'l ext \<Rightarrow> handler" where
  "slash_lunch ext = catch_slack_error (slash_lunch_func ext)"

definition slash_repeat :: "'l ext \<Rightarrow> handler" where
  "slash_repeat ext = catch_slack_error (slash_repeat_func ext)"

section \<open>The command registry\<close>

text \<open>
  The plugin keeps what \<^verbatim>\<open>on_command\<close> is given: the command name, the handler and
  the flag \<^verbatim>\<open>wait\<close>.
\<close>

type_synonym plugin = "(string \<times> handler \<times> bool) list"

definition on_command :: "plugin \<Rightarrow> string \<Rightarrow> handler \<Rightarrow> bool \<Rightarrow> plugin" where
  "on_command plugin name h wait = plugin @ [(name, h, wait)]"

definition create_endpoints :: "'l ext \<Rightarrow> plugin \<Rightarrow> plugin" where
  "create_endpoints ext plugin =
     (let plugin = on_command plugin ''/here'' (slash_here ext) False;
          plugin = on_command plugin ''/lunch'' (slash_lunch ext) False;
          plugin = on_command plugin ''/repeat'' (slash_repeat ext) False;
          plugin = on_command plugin ''/report'' (slash_report ext) False;
          plugin = on_command plugin ''/ticket'' (slash_ticket ext) False;
          plugin = on_command plugin ''/roll'' slash_roll False
      in plugin)"


section \<open>Notions for the properties\<close>

text \<open>
  The data of the post in the \<^verbatim>\<open>except\<close> block of the decorator, of the two posts
  of the dice roller, and the values its loop draws from the generator.
\<close>

definition error_notice :: "slash_command \<Rightarrow> pydict" where
  "error_notice command =
     [(''user'', VStr (cmd_user_id command)),
      (''channel'', VStr (cmd_user_id command)),
      (''as_user'', VBool True),
      (''text'', VStr (''Could not post result of `'' @ cmd_command command @ ''` ''
                       @ ''to channel <#'' @ cmd_channel_id command @ ''>''))]"

definition roll_message :: "slash_command \<Rightarrow> int \<Rightarrow> int \<Rightarrow> int list \<Rightarrow> pydict" where
  "roll_message command numdice typedice dice =
     [(''channel'', VStr (cmd_channel_id command)),
      (''text'', VStr (''<@'' @ cmd_user_id command @ ''> Rolled '' @ py_str_int numdice
                       @ '' D'' @ py_str_int typedice @ '': '' @ py_str_int_list dice))]"

definition help_message :: "slash_command \<Rightarrow> pydict" where
  "help_message command =
     [(''user'', VStr (cmd_user_id command)), (''channel'', VStr (cmd_channel_id command)),
      (''text'', VStr roll_help)]"

definition roll_values :: "world \<Rightarrow> nat \<Rightarrow> int \<Rightarrow> int list" where
  "roll_values w k typedice = map (\<lambda>i. 1 + int (rng w i mod nat (typedice + 1))) [0..<k]"


text \<open>
  Reading a printed list back: the text between the brackets, cut at the commas, each
  part read by \<^verbatim>\<open>int\<close>. This reader is independent of the printer; it tells which
  integer values a text contains.
\<close>

definition read_int_list :: "string \<Rightarrow> int list option" where
  "read_int_list s =
     (if 2 \<le> length s \<and> hd s = CHR ''['' \<and> last s = CHR '']'' then
        (let body = butlast (tl s)
         in if body = [] then Some []
            else those (map (\<lambda>p. case py_int p of Inl e \<Rightarrow> None | Inr i \<Rightarrow> Some i)
                          (split (CHR '','') body)))
      else None)"

text \<open>
  The malformed texts in the words of the specification: not exactly one letter
  \<^verbatim>\<open>d\<close> (in either case), or a part before or after it that is not an integer, or a
  number of dice outside 1 to 10, or a number of sides outside 1 to 20.
\<close>

definition malformed_roll :: "string \<Rightarrow> bool" where
  "malformed_roll txt =
     (let t = lower txt;
          a = takeWhile (\<lambda>c. c \<noteq> CHR ''d'') t;
          b = drop (Suc (length a)) t
      in count_list t (CHR ''d'') \<noteq> 1
         \<or> (case py_int a of Inl e \<Rightarrow> True | Inr n \<Rightarrow> n < 1 \<or> 10 < n)
         \<or> (case py_int b of Inl e \<Rightarrow> True | Inr s \<Rightarrow> s < 1 \<or> 20 < s))"

text \<open>
  Concrete inputs: a command, a chat platform that gives one answer to every call or a
  first answer and then another, responses of the auxiliary services, a generator and
  the collaborators.
\<close>

definition example_command :: "string \<Rightarrow> string \<Rightarrow> slash_command" where
  "example_command name txt =
     \<lparr>cmd_channel_id = ''C1'', cmd_user_id = ''U1'', cmd_user_name = ''ann'',
      cmd_text = txt, cmd_trigger_id = ''T1'', cmd_command = name\<rparr>"

definition slack_ok :: "error + pyval" where
  "slack_ok = Inr (VDict [(''ok'', VBool True), (''ts'', VStr ''1503435956.000247'')])"

definition http_ok :: http_response where
  "http_ok = \<lparr>status = 200, json = Inr (VList [VDict [(''slack_id'', VStr ''U1'')]])\<rparr>"


definition http_empty :: http_response where
  "http_empty = \<lparr>status = 200, json = Inr (VList [])\<rparr>"


definition example_app :: "error + pyval \<Rightarrow> http_response \<Rightarrow> app" where
  "example_app answer r =
     \<lparr>slack_api = (\<lambda>history m d. answer), http_session_get = (\<lambda>request. Inr r)\<rparr>"

definition failing_post :: "error + pyval \<Rightarrow> error + pyval \<Rightarrow> app" where
  "failing_post first later =
     \<lparr>slack_api = (\<lambda>history m d. if history = [] then first else later),
      http_session_get = (\<lambda>request. Inr http_ok)\<rparr>"

definition example_world :: world where
  "example_world = \<lparr>calls = [], rng = (\<lambda>i. 5 * i + 1)\<rparr>"

definition example_ext :: "unit ext" where
  "example_ext =
     \<lparr>PYBACK_HOST = ''pyback'', PYBACK_PORT = ''8000'', PYBACK_TOKEN = ''secret'',
      MODERATOR_CHANNEL = ''G8NDRJJF9'',
      ticket_dialog = (\<lambda>email txt. Inr (VDict [(''title'', VStr txt)])),
      not_claimed_attachment = Inr (VDict [(''text'', VStr ''Claim'')]),
      get_slash_here_messages =
        (\<lambda>slack_id channel_id slack txt. act_return (VStr txt, VStr ''<@U2> <@U3>'')),
      get_slash_repeat_messages =
        (\<lambda>slack_id channel_id txt. Inr (CHAT_POST_MESSAGE, [(''text'', VStr txt)])),
      LunchCommand = (\<lambda>channel user_id txt user_name. Inr ()),
      get_yelp_request = (\<lambda>lunch. Inr [(''url'', VStr ''https://api.yelp.com/v3/businesses/search'')]),
      select_random_lunch = (\<lambda>lunch body. act_return [(''text'', VStr ''Pizza'')])\<rparr>"


section \<open>Running the effects\<close>

lemma act_bind_lift_Inr [simp]: "act_bind (act_lift (Inr x)) f w = f x w"
  by (simp add: act_bind_def act_lift_def)

lemma act_bind_lift_Inl [simp]: "act_bind (act_lift (Inl e)) f w = (Inl e, w)"
  by (simp add: act_bind_def act_lift_def)

lemma query_then_return:
  "act_bind (query a m d) (\<lambda>_. act_return ()) w =
     ((case slack_api a (calls w) m d of Inl e \<Rightarrow> Inl e | Inr _ \<Rightarrow> Inr ()),
      w\<lparr>calls := calls w @ [(m, d)]\<rparr>)"
  by (simp add: act_bind_def query_def act_return_def split: sum.splits)

lemma query_bind:
  "act_bind (query a m d) f w =
     (case slack_api a (calls w) m d of
        Inl e \<Rightarrow> (Inl e, w\<lparr>calls := calls w @ [(m, d)]\<rparr>)
      | Inr x \<Rightarrow> f x (w\<lparr>calls := calls w @ [(m, d)]\<rparr>))"
  by (simp add: act_bind_def query_def split: sum.splits)

lemma catch_slack_error_Inr:
  "func command app w = (Inr x, w1) \<Longrightarrow> catch_slack_error func command app w = (Inr (), w1)"
  by (simp add: catch_slack_error_def)

lemma catch_slack_error_other:
  "func command app w = (Inl e, w1) \<Longrightarrow> e \<noteq> SlackAPIError \<Longrightarrow>
   catch_slack_error func command app w = (Inl e, w1)"
  by (cases e) (simp_all add: catch_slack_error_def)

lemma catch_slack_error_SlackAPIError:
  "func command app w = (Inl SlackAPIError, w1) \<Longrightarrow>
   catch_slack_error func command app w =
     ((case slack_api app (calls w1) CHAT_POST_EPHEMERAL (error_notice command) of
         Inl e \<Rightarrow> Inl e | Inr _ \<Rightarrow> Inr ()),
      w1\<lparr>calls := calls w1 @ [(CHAT_POST_EPHEMERAL, error_notice command)]\<rparr>)"
  by (simp add: catch_slack_error_def query_then_return error_notice_def Let_def)


section \<open>The loop and the two branches of the dice roller\<close>

lemma roll_values_Suc:
  "roll_values w (Suc k) s =
     (1 + int (rng w 0 mod nat (s + 1))) # roll_values (w\<lparr>rng := (\<lambda>i. rng w (Suc i))\<rparr>) k s"
  by (simp add: roll_values_def upt_conv_Cons map_Suc_upt [symmetric] del: upt_Suc)

lemma length_roll_values [simp]: "length (roll_values w k s) = k"
  by (simp add: roll_values_def)

lemma roll_values_range:
  assumes "0 \<le> s" and "d \<in> set (roll_values w k s)"
  shows "1 \<le> d \<and> d \<le> s + 1"
proof -
  from assms(2) obtain i where d: "d = 1 + int (rng w i mod nat (s + 1))"
    by (auto simp: roll_values_def)
  have "rng w i mod nat (s + 1) < nat (s + 1)"
    using assms(1) by simp
  then have "int (rng w i mod nat (s + 1)) < s + 1"
    using assms(1) by linarith
  with d show ?thesis by simp
qed

lemma roll_values_above_sides:
  assumes "0 \<le> s" and "rng w 0 = nat s"
  shows "hd (roll_values w (Suc k) s) = s + 1"
  using assms by (simp add: roll_values_Suc)

lemma roll_loop_run:
  "0 \<le> s \<Longrightarrow>
   roll_loop k s dice w = (Inr (dice @ roll_values w k s), w\<lparr>rng := (\<lambda>i. rng w (k + i))\<rparr>)"
proof (induction k arbitrary: dice w)
  case 0
  then show ?case by (simp add: act_return_def roll_values_def)
next
  case (Suc k)
  have r: "randint 1 (s + 1) w =
      (Inr (1 + int (rng w 0 mod nat (s + 1))), w\<lparr>rng := (\<lambda>i. rng w (Suc i))\<rparr>)"
    using Suc.prems by (simp add: randint_def)
  show ?case
    by (simp add: act_bind_def r Suc.IH [OF Suc.prems] roll_values_Suc)
qed

lemma py_int_error: "py_int s = Inl e \<Longrightarrow> e = ValueError"
  by (auto simp: py_int_def split: list.splits if_splits option.splits)

lemma parse_roll_error: "parse_roll txt = Inl e \<Longrightarrow> e = ValueError"
  by (auto simp: parse_roll_def split: list.splits sum.splits if_splits dest: py_int_error)

lemma parse_roll_bounds:
  "parse_roll txt = Inr (n, s) \<Longrightarrow> 1 \<le> n \<and> n \<le> 10 \<and> 1 \<le> s \<and> s \<le> 20"
  by (auto simp: parse_roll_def split: list.splits sum.splits if_splits)

lemma slash_roll_func_roll:
  assumes "parse_roll (cmd_text command) = Inr (n, s)"
  shows "slash_roll_func command app w =
     ((case slack_api app (calls w) CHAT_POST_MESSAGE
              (roll_message command n s (roll_values w (nat n) s)) of
         Inl e \<Rightarrow> Inl e | Inr _ \<Rightarrow> Inr ()),
      w\<lparr>rng := (\<lambda>i. rng w (nat n + i)),
        calls := calls w @ [(CHAT_POST_MESSAGE,
                   roll_message command n s (roll_values w (nat n) s))]\<rparr>)"
proof -
  have s: "0 \<le> s" using parse_roll_bounds [OF assms] by simp
  show ?thesis
    using assms
    by (simp add: slash_roll_func_def Let_def act_bind_def [of "roll_loop _ _ _"]
        roll_loop_run [OF s] query_then_return roll_message_def)
qed

lemma slash_roll_func_help:
  assumes "parse_roll (cmd_text command) = Inl e"
  shows "slash_roll_func command app w =
     ((case slack_api app (calls w) CHAT_POST_EPHEMERAL (help_message command) of
         Inl e \<Rightarrow> Inl e | Inr _ \<Rightarrow> Inr ()),
      w\<lparr>calls := calls w @ [(CHAT_POST_EPHEMERAL, help_message command)]\<rparr>)"
  using assms parse_roll_error [OF assms]
  by (simp add: slash_roll_func_def Let_def query_then_return help_message_def)


section \<open>Decimal strings are read back\<close>

lemma digit_char:
  assumes "n < 10"
  shows "py_isdigit (char_of (48 + n))" and "digit_val (char_of (48 + n)) = int n"
proof -
  have m: "(48 + n) mod 256 = 48 + n" using assms by simp
  show "py_isdigit (char_of (48 + n))" using assms by (simp add: py_isdigit_def m)
  show "digit_val (char_of (48 + n)) = int n" by (simp add: digit_val_def m)
qed

lemma str_nat_digits: "c \<in> set (str_nat n) \<Longrightarrow> py_isdigit c"
proof (induction n rule: str_nat.induct)
  case (1 n)
  show ?case
  proof (cases "n < 10")
    case True
    with "1.prems" show ?thesis by (simp add: str_nat.simps [of n] digit_char(1))
  next
    case False
    have "n mod 10 < 10" by simp
    then have "py_isdigit (char_of (48 + n mod 10))" by (rule digit_char(1))
    with False "1.prems" "1.IH" show ?thesis by (auto simp: str_nat.simps [of n])
  qed
qed

lemma str_nat_nonempty: "str_nat n \<noteq> []"
  by (simp add: str_nat.simps [of n])

lemma parse_digits_str_nat:
  "parse_digits prev acc (str_nat n @ t) =
     parse_digits True (acc * 10 ^ length (str_nat n) + int n) t"
proof (induction n arbitrary: prev acc t rule: str_nat.induct)
  case (1 n)
  show ?case
  proof (cases "n < 10")
    case True
    then show ?thesis by (simp add: str_nat.simps [of n] digit_char mult.commute)
  next
    case False
    have m: "n mod 10 < 10" by simp
    have n: "int n = 10 * int (n div 10) + int (n mod 10)"
      by (simp add: zdiv_int zmod_int)
    have "parse_digits prev acc (str_nat n @ t) =
        parse_digits prev acc (str_nat (n div 10) @ char_of (48 + n mod 10) # t)"
      using False by (simp add: str_nat.simps [of n])
    also have "\<dots> = parse_digits True (acc * 10 ^ length (str_nat (n div 10)) + int (n div 10))
        (char_of (48 + n mod 10) # t)"
      using False by (simp add: "1.IH")
    also have "\<dots> = parse_digits True (acc * 10 ^ length (str_nat n) + int n) t"
      using False by (simp add: digit_char [OF m] str_nat.simps [of n] n algebra_simps)
    finally show ?thesis .
  qed
qed

lemma space_not_digit: "py_isspace c \<Longrightarrow> \<not> py_isdigit c"
  by (auto simp: py_isspace_def py_isdigit_def Let_def)

lemma strip_padded:
  assumes l: "\<forall>c\<in>set l. py_isspace c" and r: "\<forall>c\<in>set r. py_isspace c"
    and s: "s \<noteq> []" "\<not> py_isspace (hd s)" "\<not> py_isspace (last s)"
  shows "strip (l @ s @ r) = s"
proof -
  from s obtain c cs where cs: "s = c # cs" "\<not> py_isspace c"
    by (cases s) auto
  have 1: "dropWhile py_isspace (l @ s @ r) = s @ r"
    using l cs by (simp add: dropWhile_append)
  from s have "rev s \<noteq> []" "\<not> py_isspace (hd (rev s))"
    by (simp_all add: hd_rev)
  then obtain d ds where ds: "rev s = d # ds" "\<not> py_isspace d"
    by (cases "rev s") auto
  have "dropWhile py_isspace (rev (s @ r)) = rev s"
    using r ds by (simp add: dropWhile_append)
  with 1 show ?thesis by (simp add: strip_def)
qed

lemma py_int_padded_str:
  assumes "0 \<le> i" and l: "\<forall>c\<in>set l. py_isspace c" and r: "\<forall>c\<in>set r. py_isspace c"
  shows "py_int (l @ py_str_int i @ r) = Inr i"
proof -
  let ?s = "str_nat (nat i)"
  have ne: "?s \<noteq> []" by (rule str_nat_nonempty)
  then have "hd ?s \<in> set ?s" "last ?s \<in> set ?s" by simp_all
  then have dg: "py_isdigit (hd ?s)" "py_isdigit (last ?s)"
    by (auto dest: str_nat_digits)
  then have "\<not> py_isspace (hd ?s)" "\<not> py_isspace (last ?s)"
    using space_not_digit by blast+
  then have st: "strip (l @ ?s @ r) = ?s"
    using l r ne by (intro strip_padded) auto
  from ne obtain c cs where cs: "?s = c # cs" by (cases ?s) auto
  with dg have c: "c \<noteq> CHR ''-''" "c \<noteq> CHR ''+''"
    by (auto simp: py_isdigit_def)
  have "parse_digits False 0 (?s @ []) = Some i"
    using assms(1) by (simp only: parse_digits_str_nat) simp
  then have "parse_digits False 0 (c # cs) = Some i"
    by (simp add: cs)
  with st cs c show ?thesis
    using assms(1) by (simp add: py_int_def py_str_int_def)
qed

lemma lower_char_keeps:
  "py_isspace c \<or> py_isdigit c \<Longrightarrow> lower_char c = c"
  by (auto simp: py_isspace_def py_isdigit_def lower_char_def Let_def)

lemma lower_keeps: "\<forall>c\<in>set s. py_isspace c \<or> py_isdigit c \<Longrightarrow> lower s = s"
  by (simp add: lower_def lower_char_keeps map_idI)

lemma split_no_sep: "sep \<notin> set s \<Longrightarrow> split sep s = [s]"
  by (induction s) auto

lemma split_one_sep:
  "sep \<notin> set a \<Longrightarrow> sep \<notin> set b \<Longrightarrow> split sep (a @ sep # b) = [a, b]"
  by (induction a) (auto simp: split_no_sep)

lemma d_is_letter: "\<not> py_isspace (CHR ''d'')" "\<not> py_isdigit (CHR ''d'')"
  "\<not> py_isspace (CHR ''D'')" "\<not> py_isdigit (CHR ''D'')" "lower_char (CHR ''D'') = CHR ''d''"
  "lower_char (CHR ''d'') = CHR ''d''"
  by code_simp+

lemma parse_roll_padded:
  assumes n: "1 \<le> n" "n \<le> 10" and s: "1 \<le> s" "s \<le> 20"
    and ws: "\<forall>c\<in>set l1. py_isspace c" "\<forall>c\<in>set r1. py_isspace c"
      "\<forall>c\<in>set l2. py_isspace c" "\<forall>c\<in>set r2. py_isspace c"
    and d: "d = CHR ''d'' \<or> d = CHR ''D''"
  shows "parse_roll ((l1 @ py_str_int n @ r1) @ d # (l2 @ py_str_int s @ r2)) = Inr (n, s)"
proof -
  let ?a = "l1 @ py_str_int n @ r1" and ?b = "l2 @ py_str_int s @ r2"
  have dig: "\<forall>c\<in>set (py_str_int n). py_isdigit c" "\<forall>c\<in>set (py_str_int s). py_isdigit c"
    using n s by (auto simp: py_str_int_def dest: str_nat_digits)
  have ca: "\<forall>c\<in>set ?a. py_isspace c \<or> py_isdigit c"
    and cb: "\<forall>c\<in>set ?b. py_isspace c \<or> py_isdigit c"
    using ws dig by auto
  have "lower (?a @ d # ?b) = lower ?a @ lower_char d # lower ?b"
    by (simp add: lower_def)
  also have "\<dots> = ?a @ CHR ''d'' # ?b"
    using d by (auto simp: lower_keeps [OF ca] lower_keeps [OF cb] d_is_letter)
  finally have lw: "lower (?a @ d # ?b) = ?a @ CHR ''d'' # ?b" .
  have "CHR ''d'' \<notin> set ?a" "CHR ''d'' \<notin> set ?b"
    using ca cb d_is_letter by blast+
  then have sp: "split (CHR ''d'') (?a @ CHR ''d'' # ?b) = [?a, ?b]"
    by (rule split_one_sep)
  have "py_int ?a = Inr n" "py_int ?b = Inr s"
    using n s ws by (simp_all add: py_int_padded_str)
  then show ?thesis
    unfolding parse_roll_def lw sp using n s by simp
qed


text \<open>
  Every text \<^verbatim>\<open>NdS\<close> or \<^verbatim>\<open>NDS\<close> with the numbers in range is read as the roll of
  \<open>N\<close> dice of \<open>S\<close> sides, and the malformed texts named by the specification are
  refused.
\<close>

lemma parse_roll_canonical:
  assumes "1 \<le> n" "n \<le> 10" "1 \<le> s" "s \<le> 20" "d = CHR ''d'' \<or> d = CHR ''D''"
  shows "parse_roll (py_str_int n @ d # py_str_int s) = Inr (n, s)"
  using parse_roll_padded [of n s "[]" "[]" "[]" "[]" d] assms by simp

lemma parse_roll_malformed_examples:
  "parse_roll ''0d5'' = Inl ValueError" "parse_roll ''11d5'' = Inl ValueError"
  "parse_roll ''3d21'' = Inl ValueError" "parse_roll ''abc'' = Inl ValueError"
  "parse_roll ''3x5'' = Inl ValueError" "parse_roll [] = Inl ValueError"
  by code_simp+


section \<open>The printed list is read back; the malformed texts\<close>

lemma py_int_padded_neg:
  assumes "i < 0" and l: "\<forall>c\<in>set l. py_isspace c" and r: "\<forall>c\<in>set r. py_isspace c"
  shows "py_int (l @ py_str_int i @ r) = Inr i"
proof -
  let ?s = "str_nat (nat (- i))"
  have ne: "?s \<noteq> []" by (rule str_nat_nonempty)
  then have "last ?s \<in> set ?s" by simp
  then have "py_isdigit (last ?s)" by (rule str_nat_digits)
  then have la: "\<not> py_isspace (last (CHR ''-'' # ?s))"
    using ne space_not_digit by auto
  have hd: "\<not> py_isspace (hd (CHR ''-'' # ?s))"
    by (simp add: py_isspace_def)
  have st: "strip (l @ (CHR ''-'' # ?s) @ r) = CHR ''-'' # ?s"
    using l r hd la by (intro strip_padded) simp_all
  have "parse_digits False 0 (?s @ []) = Some (- i)"
    using assms(1) by (simp only: parse_digits_str_nat) simp
  then have "parse_digits False 0 ?s = Some (- i)"
    by simp
  with st show ?thesis
    using assms(1) by (simp add: py_int_def py_str_int_def)
qed

lemma py_int_padded:
  assumes "\<forall>c\<in>set l. py_isspace c" and "\<forall>c\<in>set r. py_isspace c"
  shows "py_int (l @ py_str_int i @ r) = Inr i"
  using assms py_int_padded_str [of i l r] py_int_padded_neg [of i l r]
  by (cases "0 \<le> i") simp_all

lemma py_int_py_str_int: "py_int (py_str_int i) = Inr i"
  using py_int_padded [of "[]" "[]" i] by simp

lemma py_int_space_py_str_int: "py_int (CHR '' '' # py_str_int i) = Inr i"
proof -
  have "\<forall>c\<in>set '' ''. py_isspace c"
    by (simp add: py_isspace_def)
  from py_int_padded [OF this, of "[]" i] show ?thesis by simp
qed

lemma py_str_int_nonempty: "py_str_int i \<noteq> []"
  by (simp add: py_str_int_def str_nat_nonempty)

lemma py_str_int_no_comma: "CHR '','' \<notin> set (py_str_int i)"
proof -
  have "\<not> py_isdigit (CHR '','')"
    by (simp add: py_isdigit_def)
  then have "CHR '','' \<notin> set (str_nat n)" for n
    using str_nat_digits by blast
  then show ?thesis
    by (simp add: py_str_int_def)
qed

lemma split_sep_append:
  "sep \<notin> set a \<Longrightarrow> split sep (a @ sep # b) = a # split sep b"
  by (induction a) auto

lemma split_join:
  assumes "\<forall>x\<in>set (x # xs). CHR '','' \<notin> set x" and "CHR '','' \<notin> set p"
  shows "split (CHR '','') (p @ join '', '' (x # xs)) = (p @ x) # map ((#) CHR '' '') xs"
  using assms
proof (induction xs arbitrary: p x)
  case Nil
  then show ?case by (simp add: split_no_sep)
next
  case (Cons y ys)
  have "split (CHR '','') (p @ join '', '' (x # y # ys)) =
      split (CHR '','') ((p @ x) @ CHR '','' # ('' '' @ join '', '' (y # ys)))"
    by simp
  also have "\<dots> = (p @ x) # split (CHR '','') ('' '' @ join '', '' (y # ys))"
    using Cons.prems by (intro split_sep_append) simp
  also have "split (CHR '','') ('' '' @ join '', '' (y # ys)) =
      ('' '' @ y) # map ((#) CHR '' '') ys"
    using Cons.prems by (intro Cons.IH) simp_all
  finally show ?case by simp
qed

lemma those_map_Some: "those (map Some xs) = Some xs"
  by (induction xs) simp_all

lemma read_int_list_py_str_int_list: "read_int_list (py_str_int_list ds) = Some ds"
proof (cases ds)
  case Nil
  then show ?thesis
    by (simp add: read_int_list_def py_str_int_list_def)
next
  case (Cons d rest)
  let ?body = "join '', '' (map py_str_int ds)"
  have body: "?body \<noteq> []"
    using Cons py_str_int_nonempty by (cases rest) simp_all
  have sp: "split (CHR '','') ([] @ join '', '' (py_str_int d # map py_str_int rest)) =
      ([] @ py_str_int d) # map ((#) CHR '' '') (map py_str_int rest)"
    by (intro split_join) (auto simp: py_str_int_no_comma)
  have "those (map (\<lambda>p. case py_int p of Inl e \<Rightarrow> None | Inr i \<Rightarrow> Some i)
      (split (CHR '','') ?body)) = those (map Some ds)"
    using sp by (simp add: Cons py_int_py_str_int py_int_space_py_str_int comp_def)
  then have "those (map (\<lambda>p. case py_int p of Inl e \<Rightarrow> None | Inr i \<Rightarrow> Some i)
      (split (CHR '','') ?body)) = Some ds"
    by (simp only: those_map_Some)
  moreover have "butlast (tl (py_str_int_list ds)) = ?body"
    by (simp add: py_str_int_list_def butlast_append)
  moreover have "2 \<le> length (py_str_int_list ds)" "hd (py_str_int_list ds) = CHR ''[''"
    "last (py_str_int_list ds) = CHR '']''"
    by (simp_all add: py_str_int_list_def)
  ultimately show ?thesis
    using body by (simp add: read_int_list_def Let_def)
qed

lemma length_split: "length (split sep s) = Suc (count_list s sep)"
  by (induction s) auto

lemma split_nonempty: "split sep s \<noteq> []"
  by (induction s) auto

lemma split_single:
  assumes "count_list s sep = 1"
  shows "split sep s =
     [takeWhile (\<lambda>c. c \<noteq> sep) s, drop (Suc (length (takeWhile (\<lambda>c. c \<noteq> sep) s))) s]"
  using assms
proof (induction s)
  case Nil
  then show ?case by simp
next
  case (Cons c cs)
  show ?case
  proof (cases "c = sep")
    case True
    with Cons.prems have "count_list cs sep = 0" by simp
    then have "sep \<notin> set cs" by (simp add: count_list_0_iff)
    with True show ?thesis by (simp add: split_no_sep)
  next
    case False
    with Cons.prems have "count_list cs sep = 1" by simp
    from Cons.IH [OF this] False show ?thesis by simp
  qed
qed

lemma case_not_pair:
  "length xs \<noteq> 2 \<Longrightarrow> (case xs of [] \<Rightarrow> d | [a] \<Rightarrow> d | [a, b] \<Rightarrow> f a b | a # b # c # r \<Rightarrow> d) = d"
  by (auto split: list.splits)

lemma parse_roll_malformed_iff: "parse_roll txt = Inl ValueError \<longleftrightarrow> malformed_roll txt"
proof (cases "count_list (lower txt) (CHR ''d'') = 1")
  case True
  note sp = split_single [OF True]
  show ?thesis
    unfolding parse_roll_def malformed_roll_def Let_def sp
    using True by (auto split: sum.splits dest: py_int_error)
next
  case False
  then have "length (split (CHR ''d'') (lower txt)) \<noteq> 2"
    by (simp add: length_split)
  then have "parse_roll txt = Inl ValueError"
    unfolding parse_roll_def by (auto split: list.splits)
  with False show ?thesis
    by (simp add: malformed_roll_def Let_def)
qed

lemma parse_roll_well_formed:
  assumes "\<not> malformed_roll txt"
  shows "\<exists>n s. parse_roll txt = Inr (n, s)"
proof (cases "parse_roll txt")
  case (Inl e)
  then have "parse_roll txt = Inl ValueError"
    by (simp add: parse_roll_error)
  with assms show ?thesis
    by (simp add: parse_roll_malformed_iff)
next
  case (Inr p)
  then show ?thesis
    by (cases p) simp
qed

text \<open>The six malformed texts of the specification are malformed in its words too.\<close>

lemma malformed_roll_examples:
  "malformed_roll ''0d5''" "malformed_roll ''11d5''" "malformed_roll ''3d21''"
  "malformed_roll ''abc''" "malformed_roll ''3x5''" "malformed_roll []"
  by code_simp+

text \<open>
  With the help post refused and the notice accepted, the handler still returns
  normally.
\<close>

lemma slash_roll_help_refused_notice_accepted:
  "fst (slash_roll (example_command ''/roll'' ''abc'') (failing_post (Inl SlackAPIError) slack_ok)
     example_world) = Inr ()"
  by code_simp

text \<open>A decorated handler that raises \<^verbatim>\<open>SlackAPIError\<close> has posted the notice last.\<close>

lemma catch_slack_error_raises:
  assumes "fst (catch_slack_error func command app w) = Inl SlackAPIError"
  shows "calls (snd (catch_slack_error func command app w)) \<noteq> [] \<and>
     last (calls (snd (catch_slack_error func command app w))) =
       (CHAT_POST_EPHEMERAL, error_notice command)"
proof (cases "func command app w")
  case (Pair r w1)
  show ?thesis
  proof (cases r)
    case (Inr x)
    with Pair assms show ?thesis
      by (simp add: catch_slack_error_Inr)
  next
    case (Inl e)
    show ?thesis
    proof (cases "e = SlackAPIError")
      case True
      with Pair Inl show ?thesis
        by (simp add: catch_slack_error_SlackAPIError)
    next
      case False
      with Pair Inl assms show ?thesis
        by (simp add: catch_slack_error_other)
    qed
  qed
qed


section \<open>The dice roller: claims C1, C2, C3 and C9\<close>

text \<open>
  C1. When the text of a \<^verbatim>\<open>/roll\<close> command parses as \<open>N\<close> dice of \<open>S\<close> sides, the
  numbers are in range (\<open>N\<close> from 1 to 10, \<open>S\<close> from 1 to 20) and \<^verbatim>\<open>slash_roll\<close>
  issues exactly one \<^verbatim>\<open>chat.postMessage\<close> call, to the invoking channel: its text
  mentions the invoking user, states \<open>N\<close> and \<open>S\<close> (the two numerals read back as \<open>N\<close>
  and \<open>S\<close>) and ends with a list that, read back, holds exactly \<open>N\<close> integer values,
  those the loop has drawn. The only other call is the ephemeral notice of the
  decorator, issued when that post raises \<^verbatim>\<open>SlackAPIError\<close>.
\<close>

theorem slash_roll_posts_rolls:
  fixes command :: slash_command and app :: app and w :: world and N S :: int
  defines "dice \<equiv> roll_values w (nat N) S"
  defines "message \<equiv>
     [(''channel'', VStr (cmd_channel_id command)),
      (''text'', VStr (''<@'' @ cmd_user_id command @ ''> Rolled '' @ py_str_int N
                       @ '' D'' @ py_str_int S @ '': '' @ py_str_int_list dice))]"
  assumes "parse_roll (cmd_text command) = Inr (N, S)"
  shows "1 \<le> N \<and> N \<le> 10 \<and> 1 \<le> S \<and> S \<le> 20 \<and> length dice = nat N \<and>
     calls (snd (slash_roll command app w)) =
       calls w @ (CHAT_POST_MESSAGE, message)
         # (if slack_api app (calls w) CHAT_POST_MESSAGE message = Inl SlackAPIError
            then [(CHAT_POST_EPHEMERAL, error_notice command)] else []) \<and>
     read_int_list (py_str_int_list dice) = Some dice \<and>
     py_int (py_str_int N) = Inr N \<and> py_int (py_str_int S) = Inr S"
proof -
  have m: "message = roll_message command N S dice"
    by (simp add: message_def roll_message_def)
  note run = slash_roll_func_roll [OF assms(3), of app w, folded dice_def, folded m]
  have "calls (snd (slash_roll command app w)) =
       calls w @ (CHAT_POST_MESSAGE, message)
         # (if slack_api app (calls w) CHAT_POST_MESSAGE message = Inl SlackAPIError
            then [(CHAT_POST_EPHEMERAL, error_notice command)] else [])"
  proof (cases "slack_api app (calls w) CHAT_POST_MESSAGE message")
    case (Inr r)
    with run show ?thesis
      by (simp add: slash_roll_def catch_slack_error_Inr)
  next
    case (Inl e)
    show ?thesis
    proof (cases "e = SlackAPIError")
      case True
      with Inl run show ?thesis
        by (simp add: slash_roll_def catch_slack_error_SlackAPIError)
    next
      case False
      with Inl run show ?thesis
        by (simp add: slash_roll_def catch_slack_error_other)
    qed
  qed
  moreover have "length dice = nat N"
    by (simp add: dice_def)
  moreover have "read_int_list (py_str_int_list dice) = Some dice"
    by (rule read_int_list_py_str_int_list)
  ultimately show ?thesis
    using parse_roll_bounds [OF assms(3)] by (simp add: py_int_py_str_int)
qed

theorem slash_roll_posts_rolls_witness:
  "parse_roll (cmd_text (example_command ''/roll'' ''2d6'')) = Inr (2, 6) \<and>
   calls (snd (slash_roll (example_command ''/roll'' ''2d6'') (example_app slack_ok http_ok)
     example_world)) =
     [(CHAT_POST_MESSAGE,
       [(''channel'', VStr ''C1''), (''text'', VStr ''<@U1> Rolled 2 D6: [2, 7]'')])] \<and>
   read_int_list ''[2, 7]'' = Some [2, 7]"
proof -
  have p: "parse_roll (cmd_text (example_command ''/roll'' ''2d6'')) = Inr (2, 6)"
    by code_simp
  have v: "roll_values example_world 2 6 = [2, 7]"
    by code_simp
  have w: "calls example_world = []"
    by (simp add: example_world_def)
  have t: "py_str_int 2 = ''2''" "py_str_int 6 = ''6''" "py_str_int_list [2, 7] = ''[2, 7]''"
    by code_simp+
  show ?thesis
    using slash_roll_posts_rolls [OF p, of example_world "example_app slack_ok http_ok"] p
    by (simp add: v t w example_command_def example_app_def slack_ok_def)
qed

text \<open>
  C2. The rolled values are not all between 1 and the number of sides: the loop calls
  \<^verbatim>\<open>random.randint(1, typedice + 1)\<close>, whose upper bound is inclusive, so every value
  lies between 1 and \<open>S + 1\<close> and \<open>S + 1\<close> is reached (lemmas \<open>roll_values_range\<close>
  and \<open>roll_values_above_sides\<close>). Rolling one die with one side shows 2.
\<close>

theorem slash_roll_value_above_sides:
  "parse_roll ''1d1'' = Inr (1, 1) \<and>
   calls (snd (slash_roll (example_command ''/roll'' ''1d1'') (example_app slack_ok http_ok)
     example_world)) =
     [(CHAT_POST_MESSAGE,
       [(''channel'', VStr ''C1''), (''text'', VStr ''<@U1> Rolled 1 D1: [2]'')])]"
  by code_simp

text \<open>
  C3. On a malformed text the handler does not always return without raising: when
  the chat platform refuses every post, the \<^verbatim>\<open>SlackAPIError\<close> of the help post is
  caught by the decorator and the one of its notice escapes.
\<close>

theorem slash_roll_help_post_fails:
  "parse_roll ''abc'' = Inl ValueError \<and>
   fst (slash_roll (example_command ''/roll'' ''abc'') (example_app (Inl SlackAPIError) http_ok)
     example_world) = Inl SlackAPIError"
  by code_simp

text \<open>
  C3, as amended. On every malformed text (not exactly one \<^verbatim>\<open>d\<close>, a part that is not
  an integer, or a number out of range), \<^verbatim>\<open>slash_roll\<close> issues exactly one ephemeral
  help post, with the invoking user and the invoking channel, and no
  \<^verbatim>\<open>chat.postMessage\<close>; it draws no random number. The \<^verbatim>\<open>ValueError\<close> of the parse is
  recovered: the handler returns normally when the chat platform accepts the help post,
  and also when the help post raises \<^verbatim>\<open>SlackAPIError\<close> and the notice of the decorator,
  the only other call, is accepted. What it raises otherwise is what the chat platform
  raised: another error of the help post, or the error of the notice.
\<close>

theorem slash_roll_malformed:
  fixes command :: slash_command and app :: app and w :: world
  defines "help \<equiv>
     [(''user'', VStr (cmd_user_id command)), (''channel'', VStr (cmd_channel_id command)),
      (''text'', VStr (''Sorry, I didn't understand your input. ''
                       @ ''Should be XDYY where X is the number of dice, and YY is the number of sides''))]"
  assumes "malformed_roll (cmd_text command)"
  shows "calls (snd (slash_roll command app w)) =
       calls w @ (CHAT_POST_EPHEMERAL, help)
         # (if slack_api app (calls w) CHAT_POST_EPHEMERAL help = Inl SlackAPIError
            then [(CHAT_POST_EPHEMERAL, error_notice command)] else [])
     \<and> rng (snd (slash_roll command app w)) = rng w
     \<and> fst (slash_roll command app w) =
         (case slack_api app (calls w) CHAT_POST_EPHEMERAL help of
            Inr answer \<Rightarrow> Inr ()
          | Inl e \<Rightarrow>
              if e = SlackAPIError then
                (case slack_api app (calls w @ [(CHAT_POST_EPHEMERAL, help)])
                        CHAT_POST_EPHEMERAL (error_notice command) of
                   Inr answer \<Rightarrow> Inr ()
                 | Inl e' \<Rightarrow> Inl e')
              else Inl e)"
proof -
  have h: "help = help_message command"
    by (simp add: help_def help_message_def roll_help_def)
  from assms(2) have p: "parse_roll (cmd_text command) = Inl ValueError"
    by (simp add: parse_roll_malformed_iff)
  note run = slash_roll_func_help [OF p, of app w, folded h]
  show ?thesis
  proof (cases "slack_api app (calls w) CHAT_POST_EPHEMERAL help")
    case (Inr r)
    with run show ?thesis
      by (simp add: slash_roll_def catch_slack_error_Inr)
  next
    case (Inl e)
    show ?thesis
    proof (cases "e = SlackAPIError")
      case True
      with Inl run show ?thesis
        by (simp add: slash_roll_def catch_slack_error_SlackAPIError)
    next
      case False
      with Inl run show ?thesis
        by (simp add: slash_roll_def catch_slack_error_other)
    qed
  qed
qed

theorem slash_roll_malformed_witness:
  "malformed_roll (cmd_text (example_command ''/roll'' ''3x5'')) \<and>
   calls (snd (slash_roll (example_command ''/roll'' ''3x5'') (example_app slack_ok http_ok)
     example_world)) =
     [(CHAT_POST_EPHEMERAL,
       [(''user'', VStr ''U1''), (''channel'', VStr ''C1''),
        (''text'', VStr (''Sorry, I didn't understand your input. ''
                         @ ''Should be XDYY where X is the number of dice, and YY is the number of sides''))])] \<and>
   fst (slash_roll (example_command ''/roll'' ''3x5'') (example_app slack_ok http_ok)
     example_world) = Inr ()"
proof -
  have p: "malformed_roll (cmd_text (example_command ''/roll'' ''3x5''))"
    by code_simp
  show ?thesis
    using slash_roll_malformed [OF p, of "example_app slack_ok http_ok" example_world] p
    by (simp add: example_command_def example_app_def example_world_def slack_ok_def)
qed

text \<open>
  C9. White space around the two numbers is accepted: for numbers in range, white
  space \<open>l1\<close>, \<open>r1\<close>, \<open>l2\<close>, \<open>r2\<close> and the letter \<^verbatim>\<open>d\<close> in either case, the text
  \<open>l1 N r1 d l2 S r2\<close> parses as \<open>N\<close> dice of \<open>S\<close> sides, and the body of the handler
  posts the roll and no help message. An example is \<^verbatim>\<open>2 d 6\<close>.
\<close>

theorem slash_roll_accepts_padding:
  fixes command :: slash_command and N S :: int and l1 r1 l2 r2 :: string and d :: char
  defines "txt \<equiv> (l1 @ py_str_int N @ r1) @ d # (l2 @ py_str_int S @ r2)"
  assumes "1 \<le> N" "N \<le> 10" "1 \<le> S" "S \<le> 20"
    and "\<forall>c\<in>set l1. py_isspace c" "\<forall>c\<in>set r1. py_isspace c"
    and "\<forall>c\<in>set l2. py_isspace c" "\<forall>c\<in>set r2. py_isspace c"
    and "d = CHR ''d'' \<or> d = CHR ''D''"
  shows "parse_roll txt = Inr (N, S) \<and>
     calls (snd (slash_roll_func (command\<lparr>cmd_text := txt\<rparr>) app w)) =
       calls w @ [(CHAT_POST_MESSAGE,
         [(''channel'', VStr (cmd_channel_id command)),
          (''text'', VStr (''<@'' @ cmd_user_id command @ ''> Rolled '' @ py_str_int N
                           @ '' D'' @ py_str_int S @ '': ''
                           @ py_str_int_list (roll_values w (nat N) S)))])]"
proof -
  have p: "parse_roll txt = Inr (N, S)"
    unfolding txt_def using assms(2-10) by (intro parse_roll_padded) simp_all
  then have "parse_roll (cmd_text (command\<lparr>cmd_text := txt\<rparr>)) = Inr (N, S)"
    by simp
  from slash_roll_func_roll [OF this] p show ?thesis
    by (simp add: roll_message_def)
qed

theorem slash_roll_accepts_padding_witness:
  "parse_roll ''2 d 6'' = Inr (2, 6) \<and>
   calls (snd (slash_roll_func (example_command ''/roll'' ''2 d 6'')
     (example_app slack_ok http_ok) example_world)) =
     [(CHAT_POST_MESSAGE,
       [(''channel'', VStr ''C1''), (''text'', VStr ''<@U1> Rolled 2 D6: [2, 7]'')])]"
proof -
  have s: "\<forall>c\<in>set '' ''. py_isspace c"
    by (simp add: py_isspace_def)
  have t: "py_str_int 2 = ''2''" "py_str_int 6 = ''6''" "py_str_int_list [2, 7] = ''[2, 7]''"
    by code_simp+
  have v: "roll_values example_world 2 6 = [2, 7]"
    by code_simp
  have w: "calls example_world = []"
    by (simp add: example_world_def)
  have c: "(example_command ''/roll'' ''hi'')\<lparr>cmd_text := ''2 d 6''\<rparr> =
      example_command ''/roll'' ''2 d 6''"
    by (simp add: example_command_def)
  show ?thesis
    using slash_roll_accepts_padding [where N = 2 and S = 6 and ?l1.0 = "[]" and ?r1.0 = "'' ''"
        and ?l2.0 = "'' ''" and ?r2.0 = "[]" and d = "CHR ''d''"
        and command = "example_command ''/roll'' ''hi''"
        and app = "example_app slack_ok http_ok" and w = example_world]
    by (simp add: s t v w c) (simp add: example_command_def)
qed


section \<open>The decorator: claims C4 and C10\<close>

text \<open>
  C4. An exception can escape the decorator: the post in its \<^verbatim>\<open>except\<close> block is
  not guarded, so when the chat platform refuses that post too, its
  \<^verbatim>\<open>SlackAPIError\<close> propagates.
\<close>

theorem catch_slack_error_escapes:
  "fst (slash_roll_func (example_command ''/roll'' ''2d6'')
     (example_app (Inl SlackAPIError) http_ok) example_world) = Inl SlackAPIError \<and>
   fst (catch_slack_error slash_roll_func (example_command ''/roll'' ''2d6'')
     (example_app (Inl SlackAPIError) http_ok) example_world) = Inl SlackAPIError"
  by code_simp

text \<open>
  C4, as amended. When the wrapped handler raises \<^verbatim>\<open>SlackAPIError\<close>, the decorator
  issues exactly one further call, an ephemeral post whose text names the slash command
  and the channel; the decorated handler returns normally when the chat platform
  accepts that post, and raises what that post raises otherwise.
\<close>

theorem catch_slack_error_fallback:
  assumes "func command app w = (Inl SlackAPIError, w1)"
  shows "calls (snd (catch_slack_error func command app w)) =
       calls w1 @ [(CHAT_POST_EPHEMERAL, error_notice command)]
     \<and> map_of (error_notice command) ''text'' =
         Some (VStr (''Could not post result of `'' @ cmd_command command
                     @ ''` to channel <#'' @ cmd_channel_id command @ ''>''))
     \<and> fst (catch_slack_error func command app w) =
         (case slack_api app (calls w1) CHAT_POST_EPHEMERAL (error_notice command) of
            Inl e \<Rightarrow> Inl e | Inr _ \<Rightarrow> Inr ())"
  using assms by (simp add: catch_slack_error_SlackAPIError) (simp add: error_notice_def)

theorem catch_slack_error_fallback_witness:
  "fst (slash_report_func example_ext (example_command ''/report'' ''spam'')
          (failing_post (Inl SlackAPIError) slack_ok) example_world) = Inl SlackAPIError \<and>
   calls (snd (catch_slack_error (slash_report_func example_ext)
          (example_command ''/report'' ''spam'') (failing_post (Inl SlackAPIError) slack_ok)
          example_world)) =
     [(CHAT_POST_MESSAGE,
       [(''text'', VStr ''<@U1> sent report: spam''), (''channel'', VStr ''G8NDRJJF9''),
        (''attachments'', VList [VDict [(''text'', VStr ''Claim'')]])]),
      (CHAT_POST_EPHEMERAL, error_notice (example_command ''/report'' ''spam''))] \<and>
   fst (catch_slack_error (slash_report_func example_ext)
          (example_command ''/report'' ''spam'') (failing_post (Inl SlackAPIError) slack_ok)
          example_world) = Inr ()"
proof -
  let ?c = "example_command ''/report'' ''spam''"
  let ?a = "failing_post (Inl SlackAPIError) slack_ok"
  let ?w1 = "snd (slash_report_func example_ext ?c ?a example_world)"
  have f: "fst (slash_report_func example_ext ?c ?a example_world) = Inl SlackAPIError"
    by code_simp
  then have r: "slash_report_func example_ext ?c ?a example_world = (Inl SlackAPIError, ?w1)"
    by (simp add: prod_eq_iff)
  have c: "calls ?w1 = [(CHAT_POST_MESSAGE,
       [(''text'', VStr ''<@U1> sent report: spam''), (''channel'', VStr ''G8NDRJJF9''),
        (''attachments'', VList [VDict [(''text'', VStr ''Claim'')]])])]"
    by code_simp
  show ?thesis
    using catch_slack_error_fallback
      [of "slash_report_func example_ext" ?c ?a example_world ?w1, OF r] f
    by (simp add: c) (simp add: failing_post_def slack_ok_def)
qed

text \<open>
  C10. The notice of the decorator is addressed to the invoking user: the user id is
  both its \<^verbatim>\<open>user\<close> and its \<^verbatim>\<open>channel\<close>, and the channel of the command occurs in its
  text only.
\<close>

theorem catch_slack_error_notice_to_user:
  assumes "func command app w = (Inl SlackAPIError, w1)"
  shows "last (calls (snd (catch_slack_error func command app w))) =
     (CHAT_POST_EPHEMERAL,
      [(''user'', VStr (cmd_user_id command)),
       (''channel'', VStr (cmd_user_id command)),
       (''as_user'', VBool True),
       (''text'', VStr (''Could not post result of `'' @ cmd_command command
                        @ ''` to channel <#'' @ cmd_channel_id command @ ''>''))])"
  using assms by (simp add: catch_slack_error_SlackAPIError) (simp add: error_notice_def)

theorem catch_slack_error_notice_to_user_witness:
  "fst (slash_roll_func (example_command ''/roll'' ''1d20'')
          (failing_post (Inl SlackAPIError) slack_ok) example_world) = Inl SlackAPIError \<and>
   last (calls (snd (catch_slack_error slash_roll_func (example_command ''/roll'' ''1d20'')
          (failing_post (Inl SlackAPIError) slack_ok) example_world))) =
     (CHAT_POST_EPHEMERAL,
      [(''user'', VStr ''U1''), (''channel'', VStr ''U1''), (''as_user'', VBool True),
       (''text'', VStr ''Could not post result of `/roll` to channel <#C1>'')])"
proof -
  let ?c = "example_command ''/roll'' ''1d20''"
  let ?a = "failing_post (Inl SlackAPIError) slack_ok"
  let ?w1 = "snd (slash_roll_func ?c ?a example_world)"
  have f: "fst (slash_roll_func ?c ?a example_world) = Inl SlackAPIError"
    by code_simp
  then have r: "slash_roll_func ?c ?a example_world = (Inl SlackAPIError, ?w1)"
    by (simp add: prod_eq_iff)
  show ?thesis
    using catch_slack_error_notice_to_user [of slash_roll_func ?c ?a example_world ?w1, OF r] f
    by (simp add: example_command_def)
qed


section \<open>The announcement: claims C5 and C6\<close>

text \<open>
  C5. When the moderation service answers with a status from 400 on, or with an empty
  JSON list, \<^verbatim>\<open>slash_here\<close> returns and leaves the world as it was: no call to the chat
  platform is issued.
\<close>

theorem slash_here_denied:
  assumes "http_session_get app (here_request ext command) = Inr r"
    and "400 \<le> status r \<or> json r = Inr (VList [])"
  shows "slash_here ext command app w = (Inr (), w)"
proof -
  have "slash_here_func ext command app w = (Inr (), w)"
    using assms by (auto simp: slash_here_func_def Let_def act_return_def py_len_def)
  then show ?thesis
    by (simp add: slash_here_def catch_slack_error_Inr)
qed

theorem slash_here_denied_witness:
  "http_session_get (example_app slack_ok http_empty)
     (here_request example_ext (example_command ''/here'' ''hello'')) = Inr http_empty \<and>
   json http_empty = Inr (VList []) \<and>
   slash_here example_ext (example_command ''/here'' ''hello'') (example_app slack_ok http_empty)
     example_world = (Inr (), example_world)"
proof -
  have h: "http_session_get (example_app slack_ok http_empty)
     (here_request example_ext (example_command ''/here'' ''hello'')) = Inr http_empty"
    by (simp add: example_app_def)
  have j: "json http_empty = Inr (VList [])"
    by (simp add: http_empty_def)
  from j have "400 \<le> status http_empty \<or> json http_empty = Inr (VList [])" ..
  from slash_here_denied [OF h this] h j show ?thesis by simp
qed

text \<open>
  C6. With a success status and a non-empty authorization list, two channel messages
  are not always posted: when the chat platform refuses the first post, the handler
  stops there and the decorator sends its notice.
\<close>

theorem slash_here_first_post_fails:
  "status http_ok = 200 \<and>
   json http_ok = Inr (VList [VDict [(''slack_id'', VStr ''U1'')]]) \<and>
   calls (snd (slash_here example_ext (example_command ''/here'' ''hello'')
     (example_app (Inl SlackAPIError) http_ok) example_world)) =
     [(CHAT_POST_MESSAGE, [(''channel'', VStr ''C1''), (''text'', VStr ''hello'')]),
      (CHAT_POST_EPHEMERAL,
       [(''user'', VStr ''U1''), (''channel'', VStr ''U1''), (''as_user'', VBool True),
        (''text'', VStr ''Could not post result of `/here` to channel <#C1>'')])]"
  by code_simp

text \<open>
  C6, as amended. With a status below 400, a non-empty authorization list and the two
  messages composed, if the chat platform answers the first post with a response that
  carries \<^verbatim>\<open>ts\<close>, then \<^verbatim>\<open>slash_here\<close> issues exactly two \<^verbatim>\<open>chat.postMessage\<close>
  calls, in sequence, to the invoking channel, and the \<^verbatim>\<open>thread_ts\<close> of the second is
  that \<^verbatim>\<open>ts\<close>. The only other call is the ephemeral notice of the decorator, issued
  when the second post raises \<^verbatim>\<open>SlackAPIError\<close>.
\<close>

theorem slash_here_thread:
  fixes command :: slash_command and message member_list ts :: pyval
  defines "first \<equiv> [(''channel'', VStr (cmd_channel_id command)), (''text'', message)]"
  defines "second \<equiv> [(''channel'', VStr (cmd_channel_id command)), (''text'', member_list),
                       (''thread_ts'', ts)]"
  assumes "http_session_get app (here_request ext command) = Inr r"
    and "status r < 400" and "json r = Inr (VList auth)" and "auth \<noteq> []"
    and "get_slash_here_messages ext (cmd_user_id command) (cmd_channel_id command) app
           (cmd_text command) w = (Inr (message, member_list), w1)"
    and "slack_api app (calls w1) CHAT_POST_MESSAGE first = Inr response"
    and "py_getitem response ''ts'' = Inr ts"
  shows "calls (snd (slash_here ext command app w)) =
     calls w1 @ [(CHAT_POST_MESSAGE, first), (CHAT_POST_MESSAGE, second)]
       @ (if slack_api app (calls w1 @ [(CHAT_POST_MESSAGE, first)]) CHAT_POST_MESSAGE second
             = Inl SlackAPIError
          then [(CHAT_POST_EPHEMERAL, error_notice command)] else [])"
proof -
  let ?w2 = "w1\<lparr>calls := calls w1 @ [(CHAT_POST_MESSAGE, first), (CHAT_POST_MESSAGE, second)]\<rparr>"
  let ?answer = "slack_api app (calls w1 @ [(CHAT_POST_MESSAGE, first)]) CHAT_POST_MESSAGE second"
  have run: "slash_here_func ext command app w =
      ((case ?answer of Inl e \<Rightarrow> Inl e | Inr _ \<Rightarrow> Inr ()), ?w2)"
    using assms(3-9)
    by (simp add: slash_here_func_def Let_def py_len_def query_bind act_return_def
        act_bind_def [of "get_slash_here_messages _ _ _ _ _"] first_def second_def
        split: sum.splits)
  show ?thesis
  proof (cases ?answer)
    case (Inr x)
    with run show ?thesis
      by (simp add: slash_here_def catch_slack_error_Inr)
  next
    case (Inl e)
    show ?thesis
    proof (cases "e = SlackAPIError")
      case True
      with Inl run show ?thesis
        by (simp add: slash_here_def catch_slack_error_SlackAPIError)
    next
      case False
      with Inl run show ?thesis
        by (simp add: slash_here_def catch_slack_error_other)
    qed
  qed
qed

theorem slash_here_thread_witness:
  "calls (snd (slash_here example_ext (example_command ''/here'' ''hello'')
     (example_app slack_ok http_ok) example_world)) =
     [(CHAT_POST_MESSAGE, [(''channel'', VStr ''C1''), (''text'', VStr ''hello'')]),
      (CHAT_POST_MESSAGE, [(''channel'', VStr ''C1''), (''text'', VStr ''<@U2> <@U3>''),
                           (''thread_ts'', VStr ''1503435956.000247'')])]"
proof -
  let ?c = "example_command ''/here'' ''hello''" and ?a = "example_app slack_ok http_ok"
  have 1: "http_session_get ?a (here_request example_ext ?c) = Inr http_ok"
    by (simp add: example_app_def)
  have 2: "status http_ok < 400"
    and 3: "json http_ok = Inr (VList [VDict [(''slack_id'', VStr ''U1'')]])"
    and 4: "[VDict [(''slack_id'', VStr ''U1'')]] \<noteq> []"
    by (simp_all add: http_ok_def)
  have 5: "get_slash_here_messages example_ext (cmd_user_id ?c) (cmd_channel_id ?c) ?a
      (cmd_text ?c) example_world = (Inr (VStr ''hello'', VStr ''<@U2> <@U3>''), example_world)"
    by (simp add: example_ext_def example_command_def act_return_def)
  have 6: "slack_api ?a (calls example_world) CHAT_POST_MESSAGE
      [(''channel'', VStr (cmd_channel_id ?c)), (''text'', VStr ''hello'')] =
      Inr (VDict [(''ok'', VBool True), (''ts'', VStr ''1503435956.000247'')])"
    by (simp add: example_app_def slack_ok_def)
  have 7: "py_getitem (VDict [(''ok'', VBool True), (''ts'', VStr ''1503435956.000247'')]) ''ts''
      = Inr (VStr ''1503435956.000247'')"
    by (simp add: py_getitem_def)
  show ?thesis
    using slash_here_thread [OF 1 2 3 4 5 6 7]
    by (simp add: example_app_def slack_ok_def example_command_def example_world_def)
qed


section \<open>The restaurant search: claim C7\<close>





section \<open>The registry: claim C8\<close>

text \<open>
  C8. \<^verbatim>\<open>create_endpoints\<close> registers the six commands and nothing else, and every
  handler it registers is error-wrapped: it runs the function written for its command
  and, when that function raises \<^verbatim>\<open>SlackAPIError\<close>, posts the notice of the decorator
  as the one further call; so no registered handler raises \<^verbatim>\<open>SlackAPIError\<close> unless
  its last call is that notice.
\<close>

theorem create_endpoints_wrapped:
  "create_endpoints ext plugin = plugin @ create_endpoints ext [] \<and>
   map fst (create_endpoints ext []) =
     [''/here'', ''/lunch'', ''/repeat'', ''/report'', ''/ticket'', ''/roll''] \<and>
   (\<forall>(name, func) \<in> set [(''/here'', slash_here_func ext), (''/lunch'', slash_lunch_func ext),
        (''/repeat'', slash_repeat_func ext), (''/report'', slash_report_func ext),
        (''/ticket'', slash_ticket_func ext), (''/roll'', slash_roll_func)].
      \<exists>h. map_of (create_endpoints ext []) name = Some (h, False) \<and>
        (\<forall>command app w w1. func command app w = (Inl SlackAPIError, w1) \<longrightarrow>
           calls (snd (h command app w)) =
             calls w1 @ [(CHAT_POST_EPHEMERAL, error_notice command)]) \<and>
        (\<forall>command app w e w1. func command app w = (Inl e, w1) \<and> e \<noteq> SlackAPIError \<longrightarrow>
           h command app w = (Inl e, w1)) \<and>
        (\<forall>command app w w1. func command app w = (Inr (), w1) \<longrightarrow>
           h command app w = (Inr (), w1))) \<and>
   (\<forall>(name, h, wait) \<in> set (create_endpoints ext []). \<forall>command app w.
      fst (h command app w) = Inl SlackAPIError \<longrightarrow>
        calls (snd (h command app w)) \<noteq> [] \<and>
        last (calls (snd (h command app w))) = (CHAT_POST_EPHEMERAL, error_notice command))"
proof -
  have reg: "create_endpoints ext plugin = plugin @
     [(''/here'', catch_slack_error (slash_here_func ext), False),
      (''/lunch'', catch_slack_error (slash_lunch_func ext), False),
      (''/repeat'', catch_slack_error (slash_repeat_func ext), False),
      (''/report'', catch_slack_error (slash_report_func ext), False),
      (''/ticket'', catch_slack_error (slash_ticket_func ext), False),
      (''/roll'', catch_slack_error slash_roll_func, False)]" for plugin
    by (simp add: create_endpoints_def on_command_def slash_here_def slash_lunch_def
        slash_repeat_def slash_report_def slash_ticket_def slash_roll_def)
  have wrapped: "(\<forall>command app w w1. func command app w = (Inl SlackAPIError, w1) \<longrightarrow>
           calls (snd (catch_slack_error func command app w)) =
             calls w1 @ [(CHAT_POST_EPHEMERAL, error_notice command)]) \<and>
        (\<forall>command app w e w1. func command app w = (Inl e, w1) \<and> e \<noteq> SlackAPIError \<longrightarrow>
           catch_slack_error func command app w = (Inl e, w1)) \<and>
        (\<forall>command app w w1. func command app w = (Inr (), w1) \<longrightarrow>
           catch_slack_error func command app w = (Inr (), w1))" for func
    by (simp add: catch_slack_error_SlackAPIError catch_slack_error_other
        catch_slack_error_Inr)
  have 1: "create_endpoints ext plugin = plugin @ create_endpoints ext []"
    by (simp add: reg)
  have 2: "map fst (create_endpoints ext []) =
     [''/here'', ''/lunch'', ''/repeat'', ''/report'', ''/ticket'', ''/roll'']"
    by (simp add: reg)
  have 3: "\<forall>(name, func) \<in> set [(''/here'', slash_here_func ext), (''/lunch'', slash_lunch_func ext),
        (''/repeat'', slash_repeat_func ext), (''/report'', slash_report_func ext),
        (''/ticket'', slash_ticket_func ext), (''/roll'', slash_roll_func)].
      \<exists>h. map_of (create_endpoints ext []) name = Some (h, False) \<and>
        (\<forall>command app w w1. func command app w = (Inl SlackAPIError, w1) \<longrightarrow>
           calls (snd (h command app w)) =
             calls w1 @ [(CHAT_POST_EPHEMERAL, error_notice command)]) \<and>
        (\<forall>command app w e w1. func command app w = (Inl e, w1) \<and> e \<noteq> SlackAPIError \<longrightarrow>
           h command app w = (Inl e, w1)) \<and>
        (\<forall>command app w w1. func command app w = (Inr (), w1) \<longrightarrow>
           h command app w = (Inr (), w1))"
    using wrapped by (simp add: reg)
  have 4: "\<forall>(name, h, wait) \<in> set (create_endpoints ext []). \<forall>command app w.
      fst (h command app w) = Inl SlackAPIError \<longrightarrow>
        calls (snd (h command app w)) \<noteq> [] \<and>
        last (calls (snd (h command app w))) = (CHAT_POST_EPHEMERAL, error_notice command)"
    by (auto simp: reg dest: catch_slack_error_raises)
  from 1 2 3 4 show ?thesis
    by (intro conjI)
qed

theorem create_endpoints_wrapped_witness:
  "(''/roll'', slash_roll, False) \<in> set (create_endpoints example_ext []) \<and>
   fst (slash_roll (example_command ''/roll'' ''3d4'') (example_app (Inl SlackAPIError) http_ok)
     example_world) = Inl SlackAPIError \<and>
   last (calls (snd (slash_roll (example_command ''/roll'' ''3d4'')
     (example_app (Inl SlackAPIError) http_ok) example_world))) =
     (CHAT_POST_EPHEMERAL,
      [(''user'', VStr ''U1''), (''channel'', VStr ''U1''), (''as_user'', VBool True),
       (''text'', VStr ''Could not post result of `/roll` to channel <#C1>'')])"
proof -
  let ?c = "example_command ''/roll'' ''3d4''"
  let ?a = "example_app (Inl SlackAPIError) http_ok"
  have m: "(''/roll'', slash_roll, False) \<in> set (create_endpoints example_ext [])"
    by (simp add: create_endpoints_def on_command_def)
  have f: "fst (slash_roll ?c ?a example_world) = Inl SlackAPIError"
    by code_simp
  from create_endpoints_wrapped [of example_ext "[]"]
  have "\<forall>(name, h, wait) \<in> set (create_endpoints example_ext []). \<forall>command app w.
      fst (h command app w) = Inl SlackAPIError \<longrightarrow>
        calls (snd (h command app w)) \<noteq> [] \<and>
        last (calls (snd (h command app w))) = (CHAT_POST_EPHEMERAL, error_notice command)"
    by (elim conjE)
  with m have "\<forall>command app w.
      fst (slash_roll command app w) = Inl SlackAPIError \<longrightarrow>
        calls (snd (slash_roll command app w)) \<noteq> [] \<and>
        last (calls (snd (slash_roll command app w))) = (CHAT_POST_EPHEMERAL, error_notice command)"
    by fastforce
  with f have "last (calls (snd (slash_roll ?c ?a example_world))) =
      (CHAT_POST_EPHEMERAL, error_notice ?c)"
    by blast
  with m f show ?thesis
    by (simp add: error_notice_def example_command_def)
qed


end
